theory Spec2Isabelle
  imports Complex_Main
begin

section \<open>Exceptions\<close>

text \<open>
  Python exceptions are values. Only classes deriving from \<open>Exception\<close> are modelled
  (every \<open>except Exception\<close> clause of the repository catches exactly those); an
  exception carries its class, its optional \<open>status_code\<close> attribute and the text
  \<open>str(e)\<close> returns.
\<close>

datatype exn_class =
    Exception | ValueError | ValidationError | TypeError
  | ArithmeticError | ZeroDivisionError | OverflowError
  | OSError | ConnectionError | TimeoutError
  | RetryableError | NetworkError | APIError | RateLimitError | TemporaryError

datatype exn = Exn (exn_class: exn_class) (status_code: "int option") (message: string)

text \<open>The method resolution order of a class: itself, then its bases up to \<open>Exception\<close>.\<close>

fun mro :: "exn_class \<Rightarrow> exn_class list" where
  "mro Exception = [Exception]"
| "mro ValueError = [ValueError, Exception]"
| "mro ValidationError = [ValidationError, ValueError, Exception]"
| "mro TypeError = [TypeError, Exception]"
| "mro ArithmeticError = [ArithmeticError, Exception]"
| "mro ZeroDivisionError = [ZeroDivisionError, ArithmeticError, Exception]"
| "mro OverflowError = [OverflowError, ArithmeticError, Exception]"
| "mro OSError = [OSError, Exception]"
| "mro ConnectionError = [ConnectionError, OSError, Exception]"
| "mro TimeoutError = [TimeoutError, OSError, Exception]"
| "mro RetryableError = [RetryableError, Exception]"
| "mro NetworkError = [NetworkError, RetryableError, Exception]"
| "mro APIError = [APIError, RetryableError, Exception]"
| "mro RateLimitError = [RateLimitError, APIError, RetryableError, Exception]"
| "mro TemporaryError = [TemporaryError, RetryableError, Exception]"

definition isinstance :: "exn \<Rightarrow> exn_class list \<Rightarrow> bool" where
  "isinstance e classes = list_ex (\<lambda>c. c \<in> set (mro (exn_class e))) classes"

section \<open>Floats\<close>

text \<open>
  A Python float is a real number here and a Decimal too: rounding is not modelled. What is
  modelled is where float arithmetic raises. \<open>x ** n\<close> with a float base and an integer
  exponent raises \<open>ZeroDivisionError\<close> for a zero base and a negative exponent, and
  \<open>OverflowError\<close> when the power is too large for binary64, that is when it would round
  to infinity. A product that overflows is infinite in Python and raises nothing; under
  \<open>min\<close> with a finite cap it yields the cap, as the exact product does.
\<close>

definition float_overflow :: real where
  "float_overflow = 2 ^ 1024 - 2 ^ 970"

definition float_pow :: "real \<Rightarrow> int \<Rightarrow> exn + real" where
  "float_pow x n =
     (if x = 0 \<and> n < 0
      then Inl (Exn ZeroDivisionError None ''0.0 cannot be raised to a negative power'')
      else if float_overflow \<le> \<bar>power_int x n\<bar>
      then Inl (Exn OverflowError None ''(34, 'Numerical result out of range')'')
      else Inr (power_int x n))"

section \<open>Configuration (config.py)\<close>

text \<open>
  The fields of \<open>Config\<close> that carry a validator, and the leader filter lists. The
  input of the constructor is a value of the same record: the field values after pydantic's
  type coercion (from keyword arguments, the environment or the defaults).
\<close>

record Config =
  hyperliquid_chain :: string
  max_daily_loss :: real
  max_position_size :: real
  max_total_exposure :: real
  default_slippage_bps :: int
  follow_window_seconds :: int
  leader_update_interval :: int
  max_leaders_to_follow :: int
  performance_lookback_days :: int
  log_level :: string
  log_format :: string
  banned_leaders :: "string list"
  allowed_leaders :: "string list"

definition upper_char :: "char \<Rightarrow> char" where
  "upper_char c = (let n = (of_char c :: nat) in
     if 97 \<le> n \<and> n \<le> 122 then char_of (n - 32) else c)"

definition upper :: "string \<Rightarrow> string" where
  "upper s = map upper_char s"

definition value_error :: "string \<Rightarrow> exn" where
  "value_error msg = Exn ValueError None msg"

definition validate_chain :: "string \<Rightarrow> exn + string" where
  "validate_chain v =
     (if v \<notin> set [''Mainnet'', ''Testnet'']
      then Inl (value_error ''Chain must be one of ['Mainnet', 'Testnet']'')
      else Inr v)"

definition validate_percentage :: "real \<Rightarrow> exn + real" where
  "validate_percentage v =
     (if \<not> (0 \<le> v \<and> v \<le> 1)
      then Inl (value_error ''Percentage must be between 0 and 1'')
      else Inr v)"

definition validate_slippage :: "int \<Rightarrow> exn + int" where
  "validate_slippage v =
     (if v < 0 \<or> v > 1000
      then Inl (value_error ''Slippage must be between 0 and 1000 bps'')
      else Inr v)"

definition validate_follow_window :: "int \<Rightarrow> exn + int" where
  "validate_follow_window v =
     (if v < 1 \<or> v > 60
      then Inl (value_error ''Follow window must be between 1 and 60 seconds'')
      else Inr v)"

definition validate_update_interval :: "int \<Rightarrow> exn + int" where
  "validate_update_interval v =
     (if v < 60 \<or> v > 3600
      then Inl (value_error ''Leader update interval must be between 60 and 3600 seconds'')
      else Inr v)"

definition validate_max_leaders :: "int \<Rightarrow> exn + int" where
  "validate_max_leaders v =
     (if v < 1 \<or> v > 50
      then Inl (value_error ''Max leaders must be between 1 and 50'')
      else Inr v)"

definition validate_lookback_days :: "int \<Rightarrow> exn + int" where
  "validate_lookback_days v =
     (if v < 1 \<or> v > 365
      then Inl (value_error ''Performance lookback must be between 1 and 365 days'')
      else Inr v)"

definition validate_log_level :: "string \<Rightarrow> exn + string" where
  "validate_log_level v =
     (if upper v \<notin> set [''DEBUG'', ''INFO'', ''WARNING'', ''ERROR'', ''CRITICAL'']
      then Inl (value_error ''Log level must be one of ['DEBUG', 'INFO', 'WARNING', 'ERROR', 'CRITICAL']'')
      else Inr (upper v))"

definition validate_log_format :: "string \<Rightarrow> exn + string" where
  "validate_log_format v =
     (if v \<notin> set [''json'', ''text'']
      then Inl (value_error ''Log format must be one of ['json', 'text']'')
      else Inr v)"

text \<open>The messages of the validators that raised, in field order.\<close>

definition errors_of :: "(exn + 'a) \<Rightarrow> string list" where
  "errors_of r = (case r of Inl e \<Rightarrow> [message e] | Inr _ \<Rightarrow> [])"

definition field_errors :: "Config \<Rightarrow> string list" where
  "field_errors raw =
     errors_of (validate_chain (hyperliquid_chain raw)) @
     errors_of (validate_percentage (max_daily_loss raw)) @
     errors_of (validate_percentage (max_position_size raw)) @
     errors_of (validate_percentage (max_total_exposure raw)) @
     errors_of (validate_slippage (default_slippage_bps raw)) @
     errors_of (validate_follow_window (follow_window_seconds raw)) @
     errors_of (validate_update_interval (leader_update_interval raw)) @
     errors_of (validate_max_leaders (max_leaders_to_follow raw)) @
     errors_of (validate_lookback_days (performance_lookback_days raw)) @
     errors_of (validate_log_level (log_level raw)) @
     errors_of (validate_log_format (log_format raw))"

text \<open>
  Constructing a \<open>Config\<close>: pydantic runs every field validator, collects the
  \<open>ValueError\<close>s they raise and, if there is any, raises one \<open>ValidationError\<close> (a
  subclass of \<open>ValueError\<close>) whose text holds their messages; otherwise each field holds
  what its validator returned, which is the given value for every field but \<open>log_level\<close>,
  stored upper-cased.
\<close>

definition Config_init :: "Config \<Rightarrow> exn + Config" where
  "Config_init raw =
     (let errs = field_errors raw in
      if errs \<noteq> [] then Inl (Exn ValidationError None (concat errs))
      else Inr (raw\<lparr>log_level := upper (log_level raw)\<rparr>))"

text \<open>
  The bounds on the four risk fields, and the acceptance of the remaining fields by their
  own validators.
\<close>

definition risk_fields_in_range :: "Config \<Rightarrow> bool" where
  "risk_fields_in_range c =
     (0 \<le> max_daily_loss c \<and> max_daily_loss c \<le> 1 \<and>
      0 \<le> max_position_size c \<and> max_position_size c \<le> 1 \<and>
      0 \<le> max_total_exposure c \<and> max_total_exposure c \<le> 1 \<and>
      0 \<le> default_slippage_bps c \<and> default_slippage_bps c \<le> 1000)"

definition other_fields_accepted :: "Config \<Rightarrow> bool" where
  "other_fields_accepted raw =
     (errors_of (validate_chain (hyperliquid_chain raw)) = [] \<and>
      errors_of (validate_follow_window (follow_window_seconds raw)) = [] \<and>
      errors_of (validate_update_interval (leader_update_interval raw)) = [] \<and>
      errors_of (validate_max_leaders (max_leaders_to_follow raw)) = [] \<and>
      errors_of (validate_lookback_days (performance_lookback_days raw)) = [] \<and>
      errors_of (validate_log_level (log_level raw)) = [] \<and>
      errors_of (validate_log_format (log_format raw)) = [])"

text \<open>The defaults of the field declarations.\<close>

definition default_config :: Config where
  "default_config = \<lparr>
     hyperliquid_chain = ''Mainnet'',
     max_daily_loss = 5 / 100,
     max_position_size = 1 / 10,
     max_total_exposure = 1 / 2,
     default_slippage_bps = 50,
     follow_window_seconds = 5,
     leader_update_interval = 300,
     max_leaders_to_follow = 10,
     performance_lookback_days = 30,
     log_level = ''INFO'',
     log_format = ''json'',
     banned_leaders = [],
     allowed_leaders = [] \<rparr>"

section \<open>Retry utilities (utils/retry.py)\<close>

text \<open>
  An awaited or called function is an action on the world \<open>'w\<close> it can read and change
  (remote services, clocks, its own object): it returns a value or raises, and leaves a new
  world.
\<close>

type_synonym ('w, 'a) action = "'w \<Rightarrow> (exn + 'a) \<times> 'w"

text \<open>
  The arguments of the decorator \<open>retry_with_backoff\<close>. \<open>exceptions\<close> is the tuple of
  caught classes; \<open>on_retry\<close> is the optional callback, which may itself raise.
\<close>

record 'w retry_args =
  max_retries :: int
  base_delay :: real
  max_delay :: real
  exponential_base :: real
  exceptions :: "exn_class list"
  on_retry :: "(exn \<Rightarrow> int \<Rightarrow> real \<Rightarrow> 'w \<Rightarrow> exn option \<times> 'w) option"

text \<open>
  \<open>time.sleep\<close> raises \<open>ValueError\<close> on a negative length; \<open>asyncio.sleep\<close> returns at
  once on one. The time spent sleeping is not modelled.
\<close>

definition time_sleep :: "real \<Rightarrow> exn option" where
  "time_sleep delay =
     (if delay < 0 then Some (value_error ''sleep length must be non-negative'') else None)"

definition asyncio_sleep :: "real \<Rightarrow> exn option" where
  "asyncio_sleep delay = None"

text \<open>
  The delay computed after a failed attempt (line 59, and line 100 of the async wrapper);
  the power may raise.
\<close>

definition backoff_delay :: "'w retry_args \<Rightarrow> nat \<Rightarrow> exn + real" where
  "backoff_delay args attempt =
     (case float_pow (exponential_base args) (int attempt) of
        Inl e \<Rightarrow> Inl e
      | Inr p \<Rightarrow> Inr (min (base_delay args * p) (max_delay args)))"

text \<open>
  The body shared by \<open>sync_wrapper\<close> and \<open>async_wrapper\<close>: the \<open>for attempt in
  range(max_retries + 1)\<close> loop over the attempts still to make, with \<open>last_exception\<close>.
  Besides the outcome and the world it returns the outcomes of the invocations of
  \<open>func\<close> it made, in order. An exception raised by the delay computation, by the
  callback or by the sleep leaves the handler and the loop. After the loop, \<open>raise last_exception\<close> raises a
  \<open>TypeError\<close> when \<open>last_exception\<close> is still \<open>None\<close>.
\<close>

fun retry_loop ::
  "(real \<Rightarrow> exn option) \<Rightarrow> 'w retry_args \<Rightarrow> ('w, 'a) action \<Rightarrow> nat list \<Rightarrow> exn option \<Rightarrow> 'w
     \<Rightarrow> (exn + 'a) \<times> 'w \<times> (exn + 'a) list" where
  "retry_loop sleep args func [] last_exception w =
     (case last_exception of
        None \<Rightarrow> (Inl (Exn TypeError None ''exceptions must derive from BaseException''), w, [])
      | Some e \<Rightarrow> (Inl e, w, []))"
| "retry_loop sleep args func (attempt # rest) last_exception w =
     (case func w of
        (Inr v, w1) \<Rightarrow> (Inr v, w1, [Inr v])
      | (Inl e, w1) \<Rightarrow>
          if \<not> isinstance e (exceptions args) then (Inl e, w1, [Inl e])
          else if int attempt = max_retries args then (Inl e, w1, [Inl e])
          else
            (case backoff_delay args attempt of
               Inl e' \<Rightarrow> (Inl e', w1, [Inl e])
             | Inr delay \<Rightarrow>
                 (case (case on_retry args of
                          None \<Rightarrow> (None, w1)
                        | Some callback \<Rightarrow> callback e (int attempt + 1) delay w1) of
                    (Some e', w2) \<Rightarrow> (Inl e', w2, [Inl e])
                  | (None, w2) \<Rightarrow>
                      (case sleep delay of
                         Some e' \<Rightarrow> (Inl e', w2, [Inl e])
                       | None \<Rightarrow>
                           (case retry_loop sleep args func rest (Some e) w2 of
                              (r, w3, invocations) \<Rightarrow> (r, w3, Inl e # invocations))))))"

definition sync_wrapper ::
  "'w retry_args \<Rightarrow> ('w, 'a) action \<Rightarrow> 'w \<Rightarrow> (exn + 'a) \<times> 'w \<times> (exn + 'a) list" where
  "sync_wrapper args func w =
     retry_loop time_sleep args func [0 ..< nat (max_retries args + 1)] None w"

definition async_wrapper ::
  "'w retry_args \<Rightarrow> ('w, 'a) action \<Rightarrow> 'w \<Rightarrow> (exn + 'a) \<times> 'w \<times> (exn + 'a) list" where
  "async_wrapper args func w =
     retry_loop asyncio_sleep args func [0 ..< nat (max_retries args + 1)] None w"

text \<open>The decorator picks the wrapper by \<open>asyncio.iscoroutinefunction(func)\<close>.\<close>

definition retry_with_backoff ::
  "'w retry_args \<Rightarrow> bool \<Rightarrow> ('w, 'a) action \<Rightarrow> 'w \<Rightarrow> (exn + 'a) \<times> 'w \<times> (exn + 'a) list" where
  "retry_with_backoff args iscoroutinefunction func =
     (if iscoroutinefunction then async_wrapper args func else sync_wrapper args func)"

text \<open>
  \<open>retry_on_api_error\<close>: every \<open>Exception\<close> is caught; the callback only logs. Its
  defaults are \<open>max_retries = 3\<close>, \<open>base_delay = 0.5\<close>, \<open>max_delay = 10.0\<close>.
\<close>

definition retry_on_api_error :: "int \<Rightarrow> real \<Rightarrow> real \<Rightarrow> 'w retry_args" where
  "retry_on_api_error max_retries' base_delay' max_delay' = \<lparr>
     max_retries = max_retries',
     base_delay = base_delay',
     max_delay = max_delay',
     exponential_base = 2,
     exceptions = [Exception],
     on_retry = Some (\<lambda>exception attempt delay w. (None, w)) \<rparr>"

text \<open>
  \<open>get_retry_delay\<close>; \<open>rnd\<close> is the value \<open>random.random()\<close> returns, read only when
  \<open>jitter\<close> is set. The power may raise.
\<close>

definition get_retry_delay :: "int \<Rightarrow> real \<Rightarrow> real \<Rightarrow> real \<Rightarrow> bool \<Rightarrow> real \<Rightarrow> exn + real" where
  "get_retry_delay attempt base_delay' max_delay' exponential_base' jitter rnd =
     (case float_pow exponential_base' attempt of
        Inl e \<Rightarrow> Inl e
      | Inr p \<Rightarrow>
          (let delay = min (base_delay' * p) max_delay' in
           if jitter
           then (let jitter_factor = 1 / 4;
                     jitter_amount = delay * jitter_factor * rnd
                 in Inr (delay + jitter_amount))
           else Inr delay))"

section \<open>Data client (data/client.py)\<close>

text \<open>
  \<open>LocalNodeClient\<close> and \<open>PublicAPIClient\<close> are HTTP shims: each request method is an
  action that returns the decoded reply \<open>'d\<close> or raises. Only the methods \<open>DataClient\<close>
  calls are listed; it calls the last three on the public client only. \<open>Info\<close> is the SDK
  client.
\<close>

record ('w, 'd) info_client =
  client_get_user_state :: "string \<Rightarrow> ('w, 'd) action"
  client_get_open_orders :: "string \<Rightarrow> ('w, 'd) action"
  client_get_frontend_open_orders :: "string \<Rightarrow> ('w, 'd) action"
  client_get_user_fills :: "string \<Rightarrow> int option \<Rightarrow> int option \<Rightarrow> ('w, 'd) action"
  client_get_clearinghouse_state :: "('w, 'd) action"
  client_get_all_mids :: "('w, 'd) action"
  client_get_l2_snapshot :: "string \<Rightarrow> ('w, 'd) action"
  client_get_meta :: "('w, 'd) action"

record ('w, 'd) Info =
  all_mids :: "('w, 'd) action"
  l2_snapshot :: "string \<Rightarrow> ('w, 'd) action"
  meta :: "('w, 'd) action"

record ('w, 'd) DataClient =
  local_client :: "('w, 'd) info_client option"
  public_client :: "('w, 'd) info_client option"
  hyperliquid_info :: "('w, 'd) Info option"

definition no_data_source :: exn where
  "no_data_source = Exn Exception None ''No data source available''"

text \<open>
  The undecorated bodies of the five methods with a local-node path: the local node inside
  \<open>try\<close>, whose exception is logged and dropped; then the public API, whose exception
  propagates.
\<close>

definition get_user_state_body :: "('w, 'd) DataClient \<Rightarrow> string \<Rightarrow> ('w, 'd) action" where
  "get_user_state_body self address w =
     (case (case local_client self of
              None \<Rightarrow> (None, w)
            | Some local_node \<Rightarrow>
                (case client_get_user_state local_node address w of
                   (Inr v, w1) \<Rightarrow> (Some v, w1)
                 | (Inl e, w1) \<Rightarrow> (None, w1))) of
        (Some v, w1) \<Rightarrow> (Inr v, w1)
      | (None, w1) \<Rightarrow>
          (case public_client self of
             Some public_api \<Rightarrow> client_get_user_state public_api address w1
           | None \<Rightarrow> (Inl no_data_source, w1)))"

definition get_open_orders_body :: "('w, 'd) DataClient \<Rightarrow> string \<Rightarrow> ('w, 'd) action" where
  "get_open_orders_body self address w =
     (case (case local_client self of
              None \<Rightarrow> (None, w)
            | Some local_node \<Rightarrow>
                (case client_get_open_orders local_node address w of
                   (Inr v, w1) \<Rightarrow> (Some v, w1)
                 | (Inl e, w1) \<Rightarrow> (None, w1))) of
        (Some v, w1) \<Rightarrow> (Inr v, w1)
      | (None, w1) \<Rightarrow>
          (case public_client self of
             Some public_api \<Rightarrow> client_get_open_orders public_api address w1
           | None \<Rightarrow> (Inl no_data_source, w1)))"

definition get_frontend_open_orders_body :: "('w, 'd) DataClient \<Rightarrow> string \<Rightarrow> ('w, 'd) action" where
  "get_frontend_open_orders_body self address w =
     (case (case local_client self of
              None \<Rightarrow> (None, w)
            | Some local_node \<Rightarrow>
                (case client_get_frontend_open_orders local_node address w of
                   (Inr v, w1) \<Rightarrow> (Some v, w1)
                 | (Inl e, w1) \<Rightarrow> (None, w1))) of
        (Some v, w1) \<Rightarrow> (Inr v, w1)
      | (None, w1) \<Rightarrow>
          (case public_client self of
             Some public_api \<Rightarrow> client_get_frontend_open_orders public_api address w1
           | None \<Rightarrow> (Inl no_data_source, w1)))"

definition get_user_fills_body :: "('w, 'd) DataClient \<Rightarrow> string \<Rightarrow> int option \<Rightarrow> int option \<Rightarrow> ('w, 'd) action" where
  "get_user_fills_body self address start_time end_time w =
     (case (case local_client self of
              None \<Rightarrow> (None, w)
            | Some local_node \<Rightarrow>
                (case client_get_user_fills local_node address start_time end_time w of
                   (Inr v, w1) \<Rightarrow> (Some v, w1)
                 | (Inl e, w1) \<Rightarrow> (None, w1))) of
        (Some v, w1) \<Rightarrow> (Inr v, w1)
      | (None, w1) \<Rightarrow>
          (case public_client self of
             Some public_api \<Rightarrow> client_get_user_fills public_api address start_time end_time w1
           | None \<Rightarrow> (Inl no_data_source, w1)))"

definition get_clearinghouse_state_body :: "('w, 'd) DataClient \<Rightarrow> ('w, 'd) action" where
  "get_clearinghouse_state_body self w =
     (case (case local_client self of
              None \<Rightarrow> (None, w)
            | Some local_node \<Rightarrow>
                (case client_get_clearinghouse_state local_node w of
                   (Inr v, w1) \<Rightarrow> (Some v, w1)
                 | (Inl e, w1) \<Rightarrow> (None, w1))) of
        (Some v, w1) \<Rightarrow> (Inr v, w1)
      | (None, w1) \<Rightarrow>
          (case public_client self of
             Some public_api \<Rightarrow> client_get_clearinghouse_state public_api w1
           | None \<Rightarrow> (Inl no_data_source, w1)))"

text \<open>
  The undecorated bodies of the three market-data methods: the SDK client outside any
  \<open>try\<close>, so its exception propagates; the public API is asked only when there is no SDK
  client.
\<close>

definition get_all_mids_body :: "('w, 'd) DataClient \<Rightarrow> ('w, 'd) action" where
  "get_all_mids_body self w =
     (case hyperliquid_info self of
        Some info \<Rightarrow> all_mids info w
      | None \<Rightarrow>
          (case public_client self of
             Some public_api \<Rightarrow> client_get_all_mids public_api w
           | None \<Rightarrow> (Inl no_data_source, w)))"

definition get_l2_snapshot_body :: "('w, 'd) DataClient \<Rightarrow> string \<Rightarrow> ('w, 'd) action" where
  "get_l2_snapshot_body self asset w =
     (case hyperliquid_info self of
        Some info \<Rightarrow> l2_snapshot info asset w
      | None \<Rightarrow>
          (case public_client self of
             Some public_api \<Rightarrow> client_get_l2_snapshot public_api asset w
           | None \<Rightarrow> (Inl no_data_source, w)))"

definition get_meta_body :: "('w, 'd) DataClient \<Rightarrow> ('w, 'd) action" where
  "get_meta_body self w =
     (case hyperliquid_info self of
        Some info \<Rightarrow> meta info w
      | None \<Rightarrow>
          (case public_client self of
             Some public_api \<Rightarrow> client_get_meta public_api w
           | None \<Rightarrow> (Inl no_data_source, w)))"

text \<open>
  The methods as decorated: \<open>@retry_on_api_error()\<close> with its defaults, on a coroutine
  function.
\<close>

definition get_user_state :: "('w, 'd) DataClient \<Rightarrow> string \<Rightarrow> ('w, 'd) action" where
  "get_user_state self address w =
     (case retry_with_backoff (retry_on_api_error 3 (1 / 2) 10) True
             (get_user_state_body self address) w of
        (r, w', attempts) \<Rightarrow> (r, w'))"

definition get_open_orders :: "('w, 'd) DataClient \<Rightarrow> string \<Rightarrow> ('w, 'd) action" where
  "get_open_orders self address w =
     (case retry_with_backoff (retry_on_api_error 3 (1 / 2) 10) True
             (get_open_orders_body self address) w of
        (r, w', attempts) \<Rightarrow> (r, w'))"

definition get_frontend_open_orders :: "('w, 'd) DataClient \<Rightarrow> string \<Rightarrow> ('w, 'd) action" where
  "get_frontend_open_orders self address w =
     (case retry_with_backoff (retry_on_api_error 3 (1 / 2) 10) True
             (get_frontend_open_orders_body self address) w of
        (r, w', attempts) \<Rightarrow> (r, w'))"

definition get_user_fills :: "('w, 'd) DataClient \<Rightarrow> string \<Rightarrow> int option \<Rightarrow> int option \<Rightarrow> ('w, 'd) action" where
  "get_user_fills self address start_time end_time w =
     (case retry_with_backoff (retry_on_api_error 3 (1 / 2) 10) True
             (get_user_fills_body self address start_time end_time) w of
        (r, w', attempts) \<Rightarrow> (r, w'))"

definition get_clearinghouse_state :: "('w, 'd) DataClient \<Rightarrow> ('w, 'd) action" where
  "get_clearinghouse_state self w =
     (case retry_with_backoff (retry_on_api_error 3 (1 / 2) 10) True
             (get_clearinghouse_state_body self) w of
        (r, w', attempts) \<Rightarrow> (r, w'))"

definition get_all_mids :: "('w, 'd) DataClient \<Rightarrow> ('w, 'd) action" where
  "get_all_mids self w =
     (case retry_with_backoff (retry_on_api_error 3 (1 / 2) 10) True
             (get_all_mids_body self) w of
        (r, w', attempts) \<Rightarrow> (r, w'))"

definition get_l2_snapshot :: "('w, 'd) DataClient \<Rightarrow> string \<Rightarrow> ('w, 'd) action" where
  "get_l2_snapshot self asset w =
     (case retry_with_backoff (retry_on_api_error 3 (1 / 2) 10) True
             (get_l2_snapshot_body self asset) w of
        (r, w', attempts) \<Rightarrow> (r, w'))"

definition get_meta :: "('w, 'd) DataClient \<Rightarrow> ('w, 'd) action" where
  "get_meta self w =
     (case retry_with_backoff (retry_on_api_error 3 (1 / 2) 10) True
             (get_meta_body self) w of
        (r, w', attempts) \<Rightarrow> (r, w'))"

text \<open>
  The per-call fetches by kind of query: the five with a local-node path, and the three
  that go to the SDK client.
\<close>

datatype query =
    User_state string
  | Open_orders string
  | Frontend_open_orders string
  | User_fills string "int option" "int option"
  | Clearinghouse_state

datatype market_query = All_mids | L2_snapshot string | Meta

fun fetch :: "('w, 'd) DataClient \<Rightarrow> query \<Rightarrow> ('w, 'd) action" where
  "fetch self (User_state address) = get_user_state self address"
| "fetch self (Open_orders address) = get_open_orders self address"
| "fetch self (Frontend_open_orders address) = get_frontend_open_orders self address"
| "fetch self (User_fills address start_time end_time) =
     get_user_fills self address start_time end_time"
| "fetch self Clearinghouse_state = get_clearinghouse_state self"

fun fetch_market :: "('w, 'd) DataClient \<Rightarrow> market_query \<Rightarrow> ('w, 'd) action" where
  "fetch_market self All_mids = get_all_mids self"
| "fetch_market self (L2_snapshot asset) = get_l2_snapshot self asset"
| "fetch_market self Meta = get_meta self"

text \<open>
  \<open>get_multiple_leaders_data\<close>. The first loop creates one task per address. The tasks
  run concurrently, interleaved by the event loop at every await, so the outcome a task
  finishes with is not a function of the code alone: \<open>outcome i address\<close> is what the
  task created at position \<open>i\<close> for \<open>address\<close> finishes with (the result of
  \<open>get_leader_data\<close>, or its exception), under whatever schedule. The second loop
  awaits the tasks in order and stores the results of those that did not raise.
\<close>

definition create_tasks ::
  "(nat \<Rightarrow> string \<Rightarrow> exn + 'v) \<Rightarrow> string list \<Rightarrow> (string \<times> (exn + 'v)) list" where
  "create_tasks outcome leader_addresses =
     map (\<lambda>(i, address). (address, outcome i address)) (enumerate 0 leader_addresses)"

fun await_tasks :: "(string \<times> (exn + 'v)) list \<Rightarrow> (string \<rightharpoonup> 'v) \<Rightarrow> (string \<rightharpoonup> 'v)" where
  "await_tasks [] results = results"
| "await_tasks ((address, task) # tasks) results =
     (case task of
        Inr v \<Rightarrow> await_tasks tasks (results(address \<mapsto> v))
      | Inl e \<Rightarrow> await_tasks tasks results)"

definition get_multiple_leaders_data ::
  "(nat \<Rightarrow> string \<Rightarrow> exn + 'v) \<Rightarrow> string list \<Rightarrow> exn + (string \<rightharpoonup> 'v)" where
  "get_multiple_leaders_data outcome leader_addresses =
     (let tasks = create_tasks outcome leader_addresses in
      Inr (await_tasks tasks Map.empty))"

text \<open>
  Providers for stating what a call does: the world is the list of requests made so far,
  and a scripted client answers its k-th request with \<open>answers k\<close> and records it.
\<close>

datatype provider = Local_node | Public_api | Sdk

definition scripted_client :: "provider \<Rightarrow> (nat \<Rightarrow> exn + 'd) \<Rightarrow> (provider list, 'd) info_client" where
  "scripted_client p answers = \<lparr>
     client_get_user_state = (\<lambda>address w. (answers (count_list w p), w @ [p])),
     client_get_open_orders = (\<lambda>address w. (answers (count_list w p), w @ [p])),
     client_get_frontend_open_orders = (\<lambda>address w. (answers (count_list w p), w @ [p])),
     client_get_user_fills = (\<lambda>address start_time end_time w. (answers (count_list w p), w @ [p])),
     client_get_clearinghouse_state = (\<lambda>w. (answers (count_list w p), w @ [p])),
     client_get_all_mids = (\<lambda>w. (answers (count_list w p), w @ [p])),
     client_get_l2_snapshot = (\<lambda>asset w. (answers (count_list w p), w @ [p])),
     client_get_meta = (\<lambda>w. (answers (count_list w p), w @ [p])) \<rparr>"

definition scripted_info :: "(nat \<Rightarrow> exn + 'd) \<Rightarrow> (provider list, 'd) Info" where
  "scripted_info answers = \<lparr>
     all_mids = (\<lambda>w. (answers (count_list w Sdk), w @ [Sdk])),
     l2_snapshot = (\<lambda>asset w. (answers (count_list w Sdk), w @ [Sdk])),
     meta = (\<lambda>w. (answers (count_list w Sdk), w @ [Sdk])) \<rparr>"

definition scripted_data_client ::
  "(nat \<Rightarrow> exn + 'd) \<Rightarrow> (nat \<Rightarrow> exn + 'd) \<Rightarrow> (nat \<Rightarrow> exn + 'd)
     \<Rightarrow> (provider list, 'd) DataClient" where
  "scripted_data_client local_answers public_answers sdk_answers = \<lparr>
     local_client = Some (scripted_client Local_node local_answers),
     public_client = Some (scripted_client Public_api public_answers),
     hyperliquid_info = Some (scripted_info sdk_answers) \<rparr>"

section \<open>Types (types.py)\<close>

datatype OrderSide = BUY | SELL

datatype OrderType = LIMIT | MARKET | STOP_LOSS | TAKE_PROFIT

datatype SignalType = NEW_ORDER | MODIFY_ORDER | CANCEL_ORDER | POSITION_UPDATE

datatype LeaderStatus = ACTIVE | INACTIVE | BANNED | SUSPENDED

text \<open>
  Dataclasses whose fields no function of the model reads are constructors with the fields
  in declaration order; timestamps are integers.
  \<open>Position\<close>: asset, size, entry_price, mark_price, unrealized_pnl, realized_pnl, timestamp.
  \<open>Order\<close>: id, asset, side, order_type, size, price, filled_size, status, timestamp, cloid.
  \<open>LeaderMetrics\<close>: address, total_pnl, daily_pnl, weekly_pnl, monthly_pnl, sharpe_ratio,
  max_drawdown, win_rate, total_trades, winning_trades, avg_trade_size, volatility,
  last_updated.
\<close>

datatype Position = Position string real real real real real int

datatype Order =
  Order string string OrderSide OrderType real "real option" real string int "string option"

datatype LeaderMetrics =
  LeaderMetrics string real real real real real real real int int real real int

record Signal =
  signal_id :: string
  leader_address :: string
  signal_type :: SignalType
  asset :: string
  side :: OrderSide
  signal_size :: real
  price :: "real option"
  signal_timestamp :: int
  signal_order_id :: "string option"
  position_id :: "string option"

record Leader =
  address :: string
  status :: LeaderStatus
  metrics :: LeaderMetrics
  equity :: real
  positions :: "Position list"
  open_orders :: "Order list"
  weight :: real
  last_activity :: "int option"

record ExecutionResult =
  success :: bool
  order_id :: "string option"
  filled_size :: "real option"
  filled_price :: "real option"
  slippage :: "real option"
  error :: "string option"
  timestamp :: "int option"

section \<open>Leader manager (leaders/manager.py)\<close>

text \<open>
  The object: its configuration, the dictionary \<open>leaders\<close> (in insertion order, keys
  distinct) and the \<open>running\<close> flag. The storage and data client handles are not read by
  any method.
\<close>

record LeaderManager =
  lm_config :: Config
  leaders :: "(string \<times> Leader) list"
  lm_running :: bool

definition LeaderManager_init :: "Config \<Rightarrow> LeaderManager" where
  "LeaderManager_init config = \<lparr> lm_config = config, leaders = [], lm_running = False \<rparr>"

definition LeaderManager_start :: "LeaderManager \<Rightarrow> LeaderManager" where
  "LeaderManager_start self = self\<lparr>lm_running := True\<rparr>"


text \<open>The ranking update only logs; whatever its body raises is caught.\<close>

definition update_rankings :: "LeaderManager \<Rightarrow> LeaderManager" where
  "update_rankings self = self"







section \<open>Signal processor (signals/processor.py)\<close>

record SignalProcessor =
  sp_config :: Config
  sp_running :: bool

definition get_signals :: "SignalProcessor \<Rightarrow> Signal list" where
  "get_signals self = []"

definition validate_signal :: "SignalProcessor \<Rightarrow> Signal \<Rightarrow> bool" where
  "validate_signal self signal = True"

section \<open>Risk manager (risk/manager.py)\<close>




section \<open>Execution engine (execution/engine.py)\<close>

record ExecutionEngine =
  ee_config :: Config
  ee_running :: bool

text \<open>
  The \<open>try\<close> block logs and returns the result: it submits nothing, and nothing in it
  raises, so the handler that builds a failed result is never entered.
\<close>

definition execute_signal :: "ExecutionEngine \<Rightarrow> Signal \<Rightarrow> ExecutionResult" where
  "execute_signal self signal = \<lparr>
     success = True,
     order_id = Some ''test_order_123'',
     filled_size = Some (signal_size signal),
     filled_price = price signal,
     slippage = Some 0,
     error = None,
     timestamp = Some (signal_timestamp signal) \<rparr>"

section \<open>Orchestrator (main.py)\<close>

text \<open>
  The bot awaits two methods of whatever object sits in its \<open>risk_manager\<close> attribute;
  \<open>'r\<close> is that object's state. The repository's own \<open>RiskManager\<close> is one such
  object.
\<close>

record 'r risk_methods =
  rm_check_limits :: "('r, bool) action"
  rm_can_execute_signal :: "Signal \<Rightarrow> ('r, bool) action"


text \<open>The calls the bot makes to its components, in order, kept beside its state.\<close>

datatype call =
    Call_update_rankings
  | Call_get_signals
  | Call_validate_signal Signal
  | Call_can_execute_signal Signal "exn + bool"
  | Call_execute_signal Signal
  | Call_update_metrics
  | Call_check_limits "exn + bool"
  | Call_sleep nat

record 'r CopyTradeBot =
  running :: bool
  leader_manager :: LeaderManager
  risk_manager :: 'r
  signal_processor :: SignalProcessor
  execution_engine :: ExecutionEngine
  total_signals :: int
  total_orders :: int
  calls :: "call list"

definition called :: "call list \<Rightarrow> 'r CopyTradeBot \<Rightarrow> 'r CopyTradeBot" where
  "called cs self = self\<lparr>calls := calls self @ cs\<rparr>"

text \<open>\<open>_process_signal\<close>; an exception of the pre-check is caught by its handler and logged.\<close>

definition process_signal :: "'r risk_methods \<Rightarrow> Signal \<Rightarrow> 'r CopyTradeBot \<Rightarrow> 'r CopyTradeBot" where
  "process_signal rm signal self =
     (let self1 = called [Call_validate_signal signal] self in
      if \<not> validate_signal (signal_processor self1) signal then self1
      else
        (case rm_can_execute_signal rm signal (risk_manager self1) of
           (allowed, r') \<Rightarrow>
             (let self2 = called [Call_can_execute_signal signal allowed]
                            (self1\<lparr>risk_manager := r'\<rparr>) in
              case allowed of
                Inl e \<Rightarrow> self2
              | Inr ok \<Rightarrow>
                  if \<not> ok then self2
                  else
                    (let result = execute_signal (execution_engine self2) signal;
                         self3 = called [Call_execute_signal signal] self2
                     in if success result
                        then self3\<lparr>total_signals := total_signals self3 + 1,
                                   total_orders := total_orders self3 + 1\<rparr>
                        else self3))))"

text \<open>
  \<open>_update_metrics\<close> reads the state and sets Prometheus gauges inside its own
  \<open>try\<close>; the gauges are outside the model.
\<close>

definition update_metrics :: "'r CopyTradeBot \<Rightarrow> 'r CopyTradeBot" where
  "update_metrics self = called [Call_update_metrics] self"

text \<open>
  One pass through the body of \<open>while self.running\<close>. \<open>Break\<close> is the \<open>break\<close> after
  a failed limit check; an exception of the check is caught by the loop's handler, which
  sleeps five seconds and goes on.
\<close>

datatype loop_control = Continue | Break

definition iteration :: "'r risk_methods \<Rightarrow> 'r CopyTradeBot \<Rightarrow> loop_control \<times> 'r CopyTradeBot" where
  "iteration rm self =
     (let self1 = called [Call_update_rankings]
                    (self\<lparr>leader_manager := update_rankings (leader_manager self)\<rparr>);
          signals = get_signals (signal_processor self1);
          self2 = called [Call_get_signals] self1;
          self3 = foldl (\<lambda>bot signal. process_signal rm signal bot) self2 signals;
          self4 = update_metrics self3
      in case rm_check_limits rm (risk_manager self4) of
           (answer, r') \<Rightarrow>
             (let self5 = called [Call_check_limits answer] (self4\<lparr>risk_manager := r'\<rparr>) in
              case answer of
                Inl e \<Rightarrow> (Continue, called [Call_sleep 5] self5)
              | Inr ok \<Rightarrow>
                  if \<not> ok then (Break, self5)
                  else (Continue, called [Call_sleep 1] self5)))"

text \<open>
  \<open>_main_loop\<close> with a bound on the iterations it may start: \<open>Returned\<close> is the loop
  left (by the \<open>running\<close> test or by \<open>break\<close>), \<open>Looping\<close> is the bound reached
  with the loop still going.
\<close>

datatype 'b loop_result = is_Returned: Returned (state_of: 'b) | Looping (state_of: 'b)

fun main_loop :: "nat \<Rightarrow> 'r risk_methods \<Rightarrow> 'r CopyTradeBot \<Rightarrow> 'r CopyTradeBot loop_result" where
  "main_loop 0 rm self = (if \<not> running self then Returned self else Looping self)"
| "main_loop (Suc n) rm self =
     (if \<not> running self then Returned self
      else case iteration rm self of
             (Break, self') \<Rightarrow> Returned self'
           | (Continue, self') \<Rightarrow> main_loop n rm self')"

text \<open>The bot as \<open>__init__\<close> builds it and \<open>start\<close> sets it running, around a risk manager.\<close>

definition CopyTradeBot_started :: "Config \<Rightarrow> 'r \<Rightarrow> 'r CopyTradeBot" where
  "CopyTradeBot_started config r = \<lparr>
     running = True,
     leader_manager = LeaderManager_start (LeaderManager_init config),
     risk_manager = r,
     signal_processor = \<lparr> sp_config = config, sp_running = True \<rparr>,
     execution_engine = \<lparr> ee_config = config, ee_running = True \<rparr>,
     total_signals = 0,
     total_orders = 0,
     calls = [] \<rparr>"

section \<open>Sample objects\<close>

text \<open>
  Functions on a call counter: \<open>flaky\<close> times out on its first two calls and then
  returns the counter; \<open>refusing\<close> always raises, with the counter as status code.
\<close>

definition flaky :: "(nat, nat) action" where
  "flaky w = (if w < 2 then Inl (Exn TimeoutError None ''timed out'') else Inr w, Suc w)"

definition refusing :: "(nat, nat) action" where
  "refusing w = (Inl (Exn ConnectionError (Some (int w)) ''refused''), Suc w)"

text \<open>Task outcomes in which the fetch for one address raises and the other returns.\<close>

definition sample_outcome :: "nat \<Rightarrow> string \<Rightarrow> exn + string" where
  "sample_outcome i a =
     (if a = ''0xbad'' then Inl (Exn ConnectionError None ''connection refused'')
      else Inr ''data'')"




text \<open>A risk manager that does answer False: it counts down the limit checks it still passes.\<close>

definition countdown_methods :: "nat risk_methods" where
  "countdown_methods = \<lparr>
     rm_check_limits = (\<lambda>left. (Inr (0 < left), left - 1)),
     rm_can_execute_signal = (\<lambda>signal left. (Inr (0 < left), left)) \<rparr>"

text \<open>Reading the call log: the limit checks, and the sleep that follows a check.\<close>

fun is_poll :: "call \<Rightarrow> bool" where
  "is_poll (Call_check_limits answer) = True"
| "is_poll c = False"

definition sleep_after :: "exn + bool \<Rightarrow> call list" where
  "sleep_after answer =
     (case answer of Inl e \<Rightarrow> [Call_sleep 5] | Inr ok \<Rightarrow> if ok then [Call_sleep 1] else [])"

section \<open>Configuration bounds\<close>

lemma errors_of_Nil: "errors_of r = [] \<longleftrightarrow> (\<exists>v. r = Inr v)"
  by (cases r) (simp_all add: errors_of_def)

lemma Config_init_Inr:
  "Config_init raw = Inr c \<longleftrightarrow>
     field_errors raw = [] \<and> c = raw\<lparr>log_level := upper (log_level raw)\<rparr>"
  by (auto simp: Config_init_def Let_def)

lemma Config_init_Inl:
  "field_errors raw \<noteq> [] \<Longrightarrow>
     Config_init raw = Inl (Exn ValidationError None (concat (field_errors raw)))"
  by (simp add: Config_init_def Let_def)

lemma field_errors_Nil:
  "field_errors raw = [] \<longleftrightarrow> risk_fields_in_range raw \<and> other_fields_accepted raw"
  unfolding field_errors_def risk_fields_in_range_def other_fields_accepted_def
  by (auto simp: errors_of_Nil validate_percentage_def validate_slippage_def split: if_splits)

text \<open>
  C9. Constructing a \<open>Config\<close> raises a \<open>ValueError\<close> (pydantic's
  \<open>ValidationError\<close>) whenever \<open>max_daily_loss\<close>, \<open>max_position_size\<close> or
  \<open>max_total_exposure\<close> lies outside [0, 1] or \<open>default_slippage_bps\<close> lies outside
  [0, 1000]. Whenever the four fields lie inside their ranges, \<open>validate_percentage\<close>
  and \<open>validate_slippage\<close> accept them and return them unchanged, and the construction
  succeeds as far as the remaining fields pass their own validators. Every successfully
  constructed \<open>Config\<close> stores the four given values unchanged and satisfies the bounds.
\<close>

theorem Config_risk_bounds:
  "(\<not> risk_fields_in_range raw \<longrightarrow>
      (\<exists>e. Config_init raw = Inl e \<and> isinstance e [ValueError])) \<and>
   (risk_fields_in_range raw \<longrightarrow>
      validate_percentage (max_daily_loss raw) = Inr (max_daily_loss raw) \<and>
      validate_percentage (max_position_size raw) = Inr (max_position_size raw) \<and>
      validate_percentage (max_total_exposure raw) = Inr (max_total_exposure raw) \<and>
      validate_slippage (default_slippage_bps raw) = Inr (default_slippage_bps raw) \<and>
      (other_fields_accepted raw \<longrightarrow> (\<exists>c. Config_init raw = Inr c))) \<and>
   (\<forall>c. Config_init raw = Inr c \<longrightarrow>
      risk_fields_in_range c \<and>
      max_daily_loss c = max_daily_loss raw \<and>
      max_position_size c = max_position_size raw \<and>
      max_total_exposure c = max_total_exposure raw \<and>
      default_slippage_bps c = default_slippage_bps raw)"
proof (intro conjI impI allI)
  assume "\<not> risk_fields_in_range raw"
  then have "field_errors raw \<noteq> []" using field_errors_Nil by blast
  then show "\<exists>e. Config_init raw = Inl e \<and> isinstance e [ValueError]"
    by (simp add: Config_init_Inl isinstance_def)
next
  assume "risk_fields_in_range raw" "other_fields_accepted raw"
  then have "field_errors raw = []" using field_errors_Nil by blast
  then show "\<exists>c. Config_init raw = Inr c" by (simp add: Config_init_Inr)
next
  fix c assume "Config_init raw = Inr c"
  then have fe: "field_errors raw = []"
    and c: "c = raw\<lparr>log_level := upper (log_level raw)\<rparr>"
    by (simp_all add: Config_init_Inr)
  from fe have "risk_fields_in_range raw" using field_errors_Nil by blast
  then show "risk_fields_in_range c"
    by (simp add: c risk_fields_in_range_def)
  show "max_daily_loss c = max_daily_loss raw" "max_position_size c = max_position_size raw"
    "max_total_exposure c = max_total_exposure raw"
    "default_slippage_bps c = default_slippage_bps raw"
    by (simp_all add: c)
qed (simp_all add: risk_fields_in_range_def validate_percentage_def validate_slippage_def)

lemma default_config_accepted:
  "risk_fields_in_range default_config \<and> other_fields_accepted default_config"
  by (simp add: risk_fields_in_range_def other_fields_accepted_def default_config_def
      errors_of_def validate_chain_def validate_follow_window_def validate_update_interval_def
      validate_max_leaders_def validate_lookback_days_def validate_log_level_def
      validate_log_format_def upper_def upper_char_def Let_def)

theorem Config_risk_bounds_witness:
  "\<not> risk_fields_in_range (default_config\<lparr>max_daily_loss := 3 / 2\<rparr>) \<and>
   (\<exists>e. Config_init (default_config\<lparr>max_daily_loss := 3 / 2\<rparr>) = Inl e
        \<and> isinstance e [ValueError]) \<and>
   risk_fields_in_range default_config \<and> other_fields_accepted default_config \<and>
   validate_percentage (max_daily_loss default_config) = Inr (max_daily_loss default_config) \<and>
   (\<exists>c. Config_init default_config = Inr c
        \<and> max_daily_loss c = max_daily_loss default_config \<and> risk_fields_in_range c)"
proof -
  have bad: "\<not> risk_fields_in_range (default_config\<lparr>max_daily_loss := 3 / 2\<rparr>)"
    by (simp add: risk_fields_in_range_def)
  note good = default_config_accepted
  from Config_risk_bounds [of "default_config\<lparr>max_daily_loss := 3 / 2\<rparr>"] bad
  have 1: "\<exists>e. Config_init (default_config\<lparr>max_daily_loss := 3 / 2\<rparr>) = Inl e
        \<and> isinstance e [ValueError]" by blast
  from Config_risk_bounds [of default_config] good
  have 2: "validate_percentage (max_daily_loss default_config) = Inr (max_daily_loss default_config)"
    and 3: "\<exists>c. Config_init default_config = Inr c"
    and 4: "\<forall>c. Config_init default_config = Inr c \<longrightarrow>
      risk_fields_in_range c \<and> max_daily_loss c = max_daily_loss default_config"
    by blast+
  from 3 4 have 5: "\<exists>c. Config_init default_config = Inr c
        \<and> max_daily_loss c = max_daily_loss default_config \<and> risk_fields_in_range c"
    by blast
  from bad 1 good 2 5 show ?thesis by blast
qed

section \<open>Facts about floats and the retry arguments\<close>

lemma float_overflow_gt: "(2::real) ^ 1000 < float_overflow"
proof -
  have "(2::real) ^ 1000 + 2 ^ 970 \<le> 2 ^ 1001"
  proof -
    have "(2::real) ^ 970 \<le> 2 ^ 1000" by (rule power_increasing) simp_all
    then show ?thesis by simp
  qed
  also have "(2::real) ^ 1001 < 2 ^ 1024" by (rule power_strict_increasing) simp_all
  finally show ?thesis by (simp add: float_overflow_def)
qed

lemma float_pow_2: "k \<le> 1000 \<Longrightarrow> float_pow 2 (int k) = Inr (2 ^ k)"
proof -
  assume "k \<le> 1000"
  then have "(2::real) ^ k \<le> 2 ^ 1000" by (intro power_increasing) simp_all
  then have "\<not> float_overflow \<le> \<bar>(2::real) ^ k\<bar>" using float_overflow_gt by simp
  then show ?thesis by (simp add: float_pow_def)
qed

lemma backoff_delay_api:
  "k \<le> 1000 \<Longrightarrow>
     backoff_delay (retry_on_api_error n bd md) k = Inr (min (bd * 2 ^ k) md)"
  by (simp add: backoff_delay_def retry_on_api_error_def float_pow_2)

lemma retry_on_api_error_sel:
  "max_retries (retry_on_api_error n bd md) = n"
  "exceptions (retry_on_api_error n bd md) = [Exception]"
  "on_retry (retry_on_api_error n bd md) = Some (\<lambda>exception attempt delay w. (None, w))"
  by (simp_all add: retry_on_api_error_def)

lemma mro_Exception: "Exception \<in> set (mro c)"
  by (cases c) simp_all

section \<open>Backoff delays\<close>

lemma float_pow_overflow: "float_pow 2 1024 = Inl (Exn OverflowError None ''(34, 'Numerical result out of range')'')"
proof -
  have "power_int (2::real) 1024 = 2 ^ 1024" by (simp add: power_int_def)
  moreover have "float_overflow \<le> \<bar>(2::real) ^ 1024\<bar>" by (simp add: float_overflow_def)
  ultimately show ?thesis by (simp add: float_pow_def)
qed

text \<open>
  C6 does not hold of the code. At attempt 1024 with the default base 2.0 and positive
  delays, \<open>exponential_base ** attempt\<close> raises \<open>OverflowError\<close> before \<open>min\<close> is
  applied: \<open>get_retry_delay\<close> raises instead of returning \<open>max_delay\<close>, and so does the
  delay computation of \<open>retry_with_backoff\<close>.
\<close>

theorem get_retry_delay_overflow:
  "get_retry_delay 1024 1 60 2 False 0 =
     Inl (Exn OverflowError None ''(34, 'Numerical result out of range')'') \<and>
   backoff_delay (retry_on_api_error 2000 1 60) 1024 =
     Inl (Exn OverflowError None ''(34, 'Numerical result out of range')'')"
  using float_pow_overflow by (simp add: get_retry_delay_def backoff_delay_def retry_on_api_error_def)

text \<open>
  Where the power stays within the float range the delay is
  \<open>min (base_delay * exponential_base ^ k) max_delay\<close> without jitter, and between that
  and 1.25 times it with jitter.
\<close>

lemma get_retry_delay_in_range:
  assumes "0 \<le> k" "0 < b" "0 < e" "0 < m" "0 \<le> rnd" "rnd < 1"
    and fit: "e ^ nat k < float_overflow"
  shows "get_retry_delay k b m e False rnd = Inr (min (b * e ^ nat k) m) \<and>
         (\<exists>d. get_retry_delay k b m e True rnd = Inr d \<and>
              min (b * e ^ nat k) m \<le> d \<and> d \<le> (5 / 4) * min (b * e ^ nat k) m)"
proof -
  let ?d = "min (b * e ^ nat k) m"
  have pw: "power_int e k = e ^ nat k" using assms(1) by (simp add: power_int_def)
  have "0 < e ^ nat k" using assms(3) by simp
  then have fp: "float_pow e k = Inr (e ^ nat k)"
    using assms(3) fit by (simp add: float_pow_def pw)
  have pos: "0 < ?d" using assms by simp
  have j0: "0 \<le> ?d * (1 / 4) * rnd" using pos assms(5) by simp
  have "?d * (1 / 4) * rnd \<le> ?d * (1 / 4) * 1"
    by (rule mult_left_mono) (use pos assms(6) in simp_all)
  then have j1: "?d * (1 / 4) * rnd \<le> ?d * (1 / 4)" by simp
  have A: "get_retry_delay k b m e False rnd = Inr ?d"
    by (simp add: get_retry_delay_def fp)
  have B: "get_retry_delay k b m e True rnd = Inr (?d + ?d * (1 / 4) * rnd)"
    by (simp add: get_retry_delay_def fp Let_def)
  have C: "?d \<le> ?d + ?d * (1 / 4) * rnd" using j0 by linarith
  have D: "?d + ?d * (1 / 4) * rnd \<le> (5 / 4) * ?d" using j1 by linarith
  show ?thesis using A B C D by simp
qed

section \<open>The retry wrapper\<close>

lemma retry_loop_length:
  "retry_loop sleep args func as le w = (r, w', invs) \<Longrightarrow> length invs \<le> length as"
proof (induction as arbitrary: le w r w' invs)
  case Nil
  then show ?case by (auto split: option.splits)
next
  case (Cons a as)
  show ?case
  proof (cases "func w")
    case (Pair out w1)
    show ?thesis
    proof (cases out)
      case (Inr v)
      with Pair Cons.prems show ?thesis by auto
    next
      case (Inl e)
      with Pair Cons.prems Cons.IH show ?thesis
        by (fastforce simp: Let_def split: if_splits option.splits prod.splits sum.splits)
    qed
  qed
qed

lemma retry_loop_returns_last:
  "retry_loop sleep args func as le w = (r, w', invs) \<Longrightarrow>
     (\<forall>x \<in> set (butlast invs). isl x) \<and> (invs \<noteq> [] \<and> \<not> isl (last invs) \<longrightarrow> r = last invs)"
proof (induction as arbitrary: le w r w' invs)
  case Nil
  then show ?case by (auto split: option.splits)
next
  case (Cons a as)
  show ?case
  proof (cases "func w")
    case (Pair out w1)
    show ?thesis
    proof (cases out)
      case (Inr v)
      with Pair Cons.prems show ?thesis by auto
    next
      case (Inl e)
      with Pair Cons.prems Cons.IH show ?thesis
        by (fastforce simp: Let_def split: if_splits option.splits prod.splits sum.splits)
    qed
  qed
qed

lemma retry_loop_exhausted:
  "retry_loop sleep args func as le w = (r, w', invs) \<Longrightarrow> as \<noteq> [] \<Longrightarrow>
     int (last as) = max_retries args \<Longrightarrow> length invs = length as \<Longrightarrow> r = last invs"
proof (induction as arbitrary: le w r w' invs)
  case Nil
  then show ?case by simp
next
  case (Cons a as)
  show ?case
  proof (cases "func w")
    case (Pair out w1)
    show ?thesis
    proof (cases out)
      case (Inr v)
      with Pair Cons.prems show ?thesis by auto
    next
      case (Inl e)
      show ?thesis
      proof (cases "as = []")
        case True
        with Inl Pair Cons.prems show ?thesis
          by (auto simp: Let_def split: if_splits option.splits prod.splits sum.splits)
      next
        case False
        with Inl Pair Cons.prems Cons.IH show ?thesis
          by (fastforce simp: Let_def split: if_splits option.splits prod.splits sum.splits)
      qed
    qed
  qed
qed


text \<open>
  C10. For every function wrapped by \<open>retry_with_backoff\<close> with
  \<open>max_retries = n \<ge> 0\<close>, one call of the wrapper (sync or async) invokes the function
  at most \<open>n + 1\<close> times; an invocation that returns is the last one and its value is
  the wrapper's result, unchanged; and if all \<open>n + 1\<close> invocations raise an exception of
  a caught type, the wrapper raises the exception of the last invocation.
\<close>

theorem retry_with_backoff_attempts:
  assumes n: "0 \<le> max_retries args"
    and run: "retry_with_backoff args iscoroutinefunction func w = (r, w', invs)"
  shows "length invs \<le> nat (max_retries args) + 1 \<and>
         (\<forall>i < length invs. \<not> isl (invs ! i) \<longrightarrow> Suc i = length invs \<and> r = invs ! i) \<and>
         (length invs = nat (max_retries args) + 1 \<and>
            (\<forall>x \<in> set invs. \<exists>e. x = Inl e \<and> isinstance e (exceptions args))
          \<longrightarrow> r = last invs)"
proof -
  let ?as = "[0 ..< nat (max_retries args + 1)]"
  obtain sleep where loop: "retry_loop sleep args func ?as None w = (r, w', invs)"
    using run by (auto simp: retry_with_backoff_def sync_wrapper_def async_wrapper_def split: if_splits)
  have len: "length ?as = nat (max_retries args) + 1" using n by (simp add: nat_add_distrib)
  have ne: "?as \<noteq> []" using n by simp
  have lst: "int (last ?as) = max_retries args"
  proof -
    have "nat (max_retries args + 1) = Suc (nat (max_retries args))" using n by simp
    then show ?thesis using n by simp
  qed
  have a: "length invs \<le> nat (max_retries args) + 1"
    using retry_loop_length [OF loop] len by simp
  have b: "\<forall>i < length invs. \<not> isl (invs ! i) \<longrightarrow> Suc i = length invs \<and> r = invs ! i"
  proof (intro allI impI)
    fix i assume i: "i < length invs" and ni: "\<not> isl (invs ! i)"
    from retry_loop_returns_last [OF loop]
    have bl: "\<forall>x \<in> set (butlast invs). isl x"
      and la: "invs \<noteq> [] \<and> \<not> isl (last invs) \<longrightarrow> r = last invs" by simp_all
    have "\<not> i < length invs - 1"
    proof
      assume "i < length invs - 1"
      then have "butlast invs ! i \<in> set (butlast invs)" by simp
      moreover have "butlast invs ! i = invs ! i" using \<open>i < length invs - 1\<close> by (simp add: nth_butlast)
      ultimately show False using bl ni by auto
    qed
    with i have eq: "Suc i = length invs" by simp
    then have "invs ! i = last invs" using i by (metis diff_Suc_1 last_conv_nth length_0_conv nat.distinct(1))
    with la ni i eq show "Suc i = length invs \<and> r = invs ! i" by auto
  qed
  have c: "length invs = nat (max_retries args) + 1 \<and>
            (\<forall>x \<in> set invs. \<exists>e. x = Inl e \<and> isinstance e (exceptions args))
          \<longrightarrow> r = last invs"
    using retry_loop_exhausted [OF loop ne lst] len by simp
  from a b c show ?thesis by blast
qed


lemma upt_0_4: "[0 ..< 4] = [0, 1, 2, 3::nat]" by (simp add: upt_rec)
lemma upt_0_2: "[0 ..< 2] = [0, 1::nat]" by (simp add: upt_rec)

lemma flaky_run:
  "retry_with_backoff (retry_on_api_error 3 (1 / 2) 10) True flaky 0 =
     (Inr 2, 3, [Inl (Exn TimeoutError None ''timed out''),
                 Inl (Exn TimeoutError None ''timed out''), Inr 2])"
  by (simp add: retry_with_backoff_def async_wrapper_def upt_0_4 flaky_def
      isinstance_def asyncio_sleep_def backoff_delay_api retry_on_api_error_sel)

lemma refusing_run:
  "retry_with_backoff (retry_on_api_error 1 (1 / 2) 10) False refusing 0 =
     (Inl (Exn ConnectionError (Some 1) ''refused''), 2,
      [Inl (Exn ConnectionError (Some 0) ''refused''),
       Inl (Exn ConnectionError (Some 1) ''refused'')])"
  by (simp add: retry_with_backoff_def sync_wrapper_def upt_0_2
      refusing_def isinstance_def time_sleep_def backoff_delay_api retry_on_api_error_sel)

theorem retry_with_backoff_attempts_witness:
  "retry_with_backoff (retry_on_api_error 3 (1 / 2) 10) True flaky 0 =
     (Inr 2, 3, [Inl (Exn TimeoutError None ''timed out''),
                 Inl (Exn TimeoutError None ''timed out''), Inr 2]) \<and>
   length [Inl (Exn TimeoutError None ''timed out''),
           Inl (Exn TimeoutError None ''timed out''), Inr (2::nat)] \<le> nat 3 + 1 \<and>
   retry_with_backoff (retry_on_api_error 1 (1 / 2) 10) False refusing 0 =
     (Inl (Exn ConnectionError (Some 1) ''refused''), 2,
      [Inl (Exn ConnectionError (Some 0) ''refused''),
       Inl (Exn ConnectionError (Some 1) ''refused'')]) \<and>
   (Inl (Exn ConnectionError (Some 1) ''refused'') :: exn + nat) =
     last [Inl (Exn ConnectionError (Some 0) ''refused''),
           Inl (Exn ConnectionError (Some 1) ''refused'')]"
proof -
  have n3: "0 \<le> max_retries (retry_on_api_error 3 (1 / 2) 10 :: nat retry_args)"
    and n1: "0 \<le> max_retries (retry_on_api_error 1 (1 / 2) 10 :: nat retry_args)"
    by (simp_all add: retry_on_api_error_def)
  from retry_with_backoff_attempts [OF n3 flaky_run]
  have a: "length [Inl (Exn TimeoutError None ''timed out''),
           Inl (Exn TimeoutError None ''timed out''), Inr (2::nat)] \<le> nat 3 + 1"
    by (simp add: retry_on_api_error_def)
  have all: "\<forall>x \<in> set [Inl (Exn ConnectionError (Some 0) ''refused''),
       Inl (Exn ConnectionError (Some 1) ''refused'') :: exn + nat].
       \<exists>e. x = Inl e \<and> isinstance e (exceptions (retry_on_api_error 1 (1 / 2) 10 :: nat retry_args))"
    by (simp add: retry_on_api_error_def isinstance_def)
  from retry_with_backoff_attempts [OF n1 refusing_run] all
  have b: "(Inl (Exn ConnectionError (Some 1) ''refused'') :: exn + nat) =
     last [Inl (Exn ConnectionError (Some 0) ''refused''),
           Inl (Exn ConnectionError (Some 1) ''refused'')]"
    by (simp add: retry_on_api_error_def)
  from flaky_run a refusing_run b show ?thesis by blast
qed

section \<open>Failover of the data client\<close>

lemmas client_defs =
  get_user_state_def get_user_state_body_def get_open_orders_def get_open_orders_body_def
  get_frontend_open_orders_def get_frontend_open_orders_body_def
  get_user_fills_def get_user_fills_body_def
  get_clearinghouse_state_def get_clearinghouse_state_body_def
  get_all_mids_def get_all_mids_body_def get_l2_snapshot_def get_l2_snapshot_body_def
  get_meta_def get_meta_body_def
  scripted_data_client_def scripted_client_def scripted_info_def
  retry_with_backoff_def async_wrapper_def retry_on_api_error_sel backoff_delay_api
  upt_0_4 isinstance_def mro_Exception asyncio_sleep_def

text \<open>
  C3, as stated, fails: when the local node raises on its first request and would answer
  the second, \<open>get_user_state\<close> does not ask it again; the second request of the call
  goes to the public API, whose answer is returned.
\<close>

theorem get_user_state_primary_retry_counterexample:
  "get_user_state
     (scripted_data_client
        (\<lambda>k. if k = 0 then Inl (Exn TimeoutError None ''timeout'') else Inr ''local'')
        (\<lambda>k. Inr ''public'') (\<lambda>k. Inr ''sdk''))
     ''0xleader'' [] = (Inr ''public'', [Local_node, Public_api]) \<and>
   [Local_node, Public_api] ! 1 \<noteq> Local_node"
  by (simp add: client_defs)

lemma fetch_local_answers:
  "la 0 = Inr v \<Longrightarrow> fetch (scripted_data_client la pa sa) q [] = (Inr v, [Local_node])"
  by (cases q) (simp_all add: client_defs)

lemma fetch_falls_over:
  "la 0 = Inl e \<Longrightarrow> pa 0 = Inr v \<Longrightarrow>
     fetch (scripted_data_client la pa sa) q [] = (Inr v, [Local_node, Public_api])"
  by (cases q) (simp_all add: client_defs)

lemma fetch_next_attempt:
  "la 0 = Inl e \<Longrightarrow> pa 0 = Inl e' \<Longrightarrow> la 1 = Inr v \<Longrightarrow>
     fetch (scripted_data_client la pa sa) q [] = (Inr v, [Local_node, Public_api, Local_node])"
  by (cases q) (simp_all add: client_defs)

lemma fetch_both_fail:
  "fetch (scripted_data_client (\<lambda>k. Inl (el k)) (\<lambda>k. Inl (ep k)) sa) q [] =
     (Inl (ep 3), [Local_node, Public_api, Local_node, Public_api,
                   Local_node, Public_api, Local_node, Public_api])"
  by (cases q) (simp_all add: client_defs numeral_3_eq_3 numeral_2_eq_2)

lemma fetch_market_answers:
  "sa 0 = Inr v \<Longrightarrow> fetch_market (scripted_data_client la pa sa) m [] = (Inr v, [Sdk])"
  by (cases m) (simp_all add: client_defs)

lemma fetch_market_retries:
  "sa 0 = Inl e \<Longrightarrow> sa 1 = Inr v \<Longrightarrow>
     fetch_market (scripted_data_client la pa sa) m [] = (Inr v, [Sdk, Sdk])"
  by (cases m) (simp_all add: client_defs)

lemma fetch_market_fails:
  "fetch_market (scripted_data_client la pa (\<lambda>k. Inl (es k))) m [] =
     (Inl (es 3), [Sdk, Sdk, Sdk, Sdk])"
  by (cases m) (simp_all add: client_defs numeral_3_eq_3 numeral_2_eq_2)

text \<open>
  C3, amended. For every fetch with a local-node path (\<open>get_user_state\<close>,
  \<open>get_open_orders\<close>, \<open>get_frontend_open_orders\<close>, \<open>get_user_fills\<close>,
  \<open>get_clearinghouse_state\<close>) the local node is asked first. If it answers, its answer
  is returned and the public API is not asked. If it raises, the call falls over to the
  public API at once, without asking the local node again, and returns the public API's
  answer. The failover holds for that attempt only: when the public API raises too, the
  retry decorator repeats the whole attempt, local node first. When both providers raise on
  every request, the call makes four attempts and raises the public API's last exception
  rather than returning a value. The market-data fetches (\<open>get_all_mids\<close>,
  \<open>get_l2_snapshot\<close>, \<open>get_meta\<close>) ask the SDK client only: when it raises, the retry
  decorator repeats the call, and after four failed attempts the call raises the SDK
  client's last exception; neither the local node nor the public API is asked.
\<close>

theorem fetch_failover:
  "(la 0 = Inr v \<longrightarrow>
      fetch (scripted_data_client la pa sa) q [] = (Inr v, [Local_node])) \<and>
   (la 0 = Inl e \<and> pa 0 = Inr v \<longrightarrow>
      fetch (scripted_data_client la pa sa) q [] = (Inr v, [Local_node, Public_api])) \<and>
   (la 0 = Inl e \<and> pa 0 = Inl e' \<and> la 1 = Inr v \<longrightarrow>
      fetch (scripted_data_client la pa sa) q [] =
        (Inr v, [Local_node, Public_api, Local_node])) \<and>
   fetch (scripted_data_client (\<lambda>k. Inl (el k)) (\<lambda>k. Inl (ep k)) sa) q [] =
     (Inl (ep 3), [Local_node, Public_api, Local_node, Public_api,
                   Local_node, Public_api, Local_node, Public_api]) \<and>
   (sa 0 = Inr v \<longrightarrow>
      fetch_market (scripted_data_client la pa sa) m [] = (Inr v, [Sdk])) \<and>
   (sa 0 = Inl e \<and> sa 1 = Inr v \<longrightarrow>
      fetch_market (scripted_data_client la pa sa) m [] = (Inr v, [Sdk, Sdk])) \<and>
   fetch_market (scripted_data_client la pa (\<lambda>k. Inl (es k))) m [] =
     (Inl (es 3), [Sdk, Sdk, Sdk, Sdk])"
  using fetch_local_answers [of la v pa sa q] fetch_falls_over [of la e pa v sa q]
    fetch_next_attempt [of la e pa e' v sa q] fetch_both_fail [of el ep sa q]
    fetch_market_answers [of sa v la pa m] fetch_market_retries [of sa e v la pa m]
    fetch_market_fails [of la pa es m]
  by blast

section \<open>Isolation of the leader fetches\<close>

lemma dom_await_tasks:
  "dom (await_tasks tasks results) = dom results \<union> {a. \<exists>v. (a, Inr v) \<in> set tasks}"
proof (induction tasks arbitrary: results)
  case Nil
  show ?case by simp
next
  case (Cons t tasks)
  obtain a task where t: "t = (a, task)" by (cases t)
  show ?case
  proof (cases task)
    case (Inl e)
    have "dom (await_tasks (t # tasks) results) = dom (await_tasks tasks results)"
      by (simp add: t Inl)
    also have "\<dots> = dom results \<union> {a. \<exists>v. (a, Inr v) \<in> set tasks}"
      by (rule Cons.IH)
    finally show ?thesis by (auto simp: t Inl)
  next
    case (Inr v)
    have "dom (await_tasks (t # tasks) results) = dom (await_tasks tasks (results(a \<mapsto> v)))"
      by (simp add: t Inr)
    also have "\<dots> = dom (results(a \<mapsto> v)) \<union> {a. \<exists>v. (a, Inr v) \<in> set tasks}"
      by (rule Cons.IH)
    also have "\<dots> = insert a (dom results) \<union> {a. \<exists>v. (a, Inr v) \<in> set tasks}"
      by simp
    finally show ?thesis by (auto simp: t Inr)
  qed
qed

lemma await_tasks_value:
  "await_tasks tasks results a = Some v \<Longrightarrow> results a = Some v \<or> (a, Inr v) \<in> set tasks"
  by (induction tasks results rule: await_tasks.induct) (auto split: sum.splits if_splits)


lemma set_create_tasks:
  "set (create_tasks outcome addrs) =
     {(addrs ! i, outcome i (addrs ! i)) | i. i < length addrs}"
  by (force simp: create_tasks_def in_set_enumerate_eq image_iff)

text \<open>
  C5. For every list of leader addresses and whatever the tasks finish with,
  \<open>get_multiple_leaders_data\<close> returns a map (it never raises) whose keys are exactly the
  addresses with a task that did not raise, each mapped to a result fetched for that
  address: the exception of one leader's fetch neither leaves the call nor removes
  another leader's result.
\<close>

theorem get_multiple_leaders_data_isolation:
  "\<exists>results.
     get_multiple_leaders_data outcome leader_addresses = Inr results \<and>
     dom results =
       {leader_addresses ! i | i.
          i < length leader_addresses \<and> \<not> isl (outcome i (leader_addresses ! i))} \<and>
     (\<forall>a v. results a = Some v \<longrightarrow>
        (\<exists>i < length leader_addresses. leader_addresses ! i = a \<and> outcome i a = Inr v))"
proof -
  let ?tasks = "create_tasks outcome leader_addresses"
  let ?results = "await_tasks ?tasks Map.empty"
  have r: "get_multiple_leaders_data outcome leader_addresses = Inr ?results"
    by (simp add: get_multiple_leaders_data_def)
  have "dom ?results = {a. \<exists>v. (a, Inr v) \<in> set ?tasks}"
    by (simp add: dom_await_tasks)
  also have "\<dots> = {leader_addresses ! i | i.
          i < length leader_addresses \<and> \<not> isl (outcome i (leader_addresses ! i))}"
  proof (intro set_eqI iffI)
    fix a assume "a \<in> {a. \<exists>v. (a, Inr v) \<in> set ?tasks}"
    then obtain v i where "i < length leader_addresses" "a = leader_addresses ! i"
      "Inr v = outcome i (leader_addresses ! i)"
      by (auto simp: set_create_tasks)
    then have "i < length leader_addresses" "a = leader_addresses ! i"
      "\<not> isl (outcome i (leader_addresses ! i))"
      by (simp_all, metis sum.disc(2))
    then show "a \<in> {leader_addresses ! i | i.
          i < length leader_addresses \<and> \<not> isl (outcome i (leader_addresses ! i))}"
      by auto
  next
    fix a assume "a \<in> {leader_addresses ! i | i.
          i < length leader_addresses \<and> \<not> isl (outcome i (leader_addresses ! i))}"
    then obtain i where i: "i < length leader_addresses" "a = leader_addresses ! i"
      "\<not> isl (outcome i (leader_addresses ! i))" by auto
    then obtain v where "outcome i (leader_addresses ! i) = Inr v"
      by (cases "outcome i (leader_addresses ! i)") auto
    with i have "(a, Inr v) \<in> set ?tasks" by (auto simp: set_create_tasks)
    then show "a \<in> {a. \<exists>v. (a, Inr v) \<in> set ?tasks}" by blast
  qed
  finally have d: "dom ?results = {leader_addresses ! i | i.
          i < length leader_addresses \<and> \<not> isl (outcome i (leader_addresses ! i))}" .
  have v: "\<forall>a v. ?results a = Some v \<longrightarrow>
        (\<exists>i < length leader_addresses. leader_addresses ! i = a \<and> outcome i a = Inr v)"
  proof (intro allI impI)
    fix a v assume "?results a = Some v"
    then have "(a, Inr v) \<in> set ?tasks"
      using await_tasks_value [of ?tasks Map.empty a v] by simp
    then show "\<exists>i < length leader_addresses. leader_addresses ! i = a \<and> outcome i a = Inr v"
      by (auto simp: set_create_tasks)
  qed
  from r d v show ?thesis by blast
qed

section \<open>Active leaders\<close>




section \<open>The risk pre-check\<close>

lemmas process_defs = process_signal_def called_def validate_signal_def execute_signal_def Let_def


text \<open>
  The gate of \<open>_process_signal\<close> itself, for any risk manager in the bot's slot: a signal
  whose pre-check returns False is not handed to \<open>execute_signal\<close>.
\<close>

lemma process_signal_gate:
  "(fst (rm_can_execute_signal rm signal (risk_manager self)) = Inr False \<longrightarrow>
      calls (process_signal rm signal self) =
        calls self @ [Call_validate_signal signal, Call_can_execute_signal signal (Inr False)] \<and>
      total_signals (process_signal rm signal self) = total_signals self \<and>
      total_orders (process_signal rm signal self) = total_orders self) \<and>
   (fst (rm_can_execute_signal rm signal (risk_manager self)) = Inr True \<longrightarrow>
      calls (process_signal rm signal self) =
        calls self @ [Call_validate_signal signal, Call_can_execute_signal signal (Inr True),
                      Call_execute_signal signal])"
  by (auto simp: process_defs split: prod.splits)

section \<open>The kill switch of the main loop\<close>

lemma iteration_calls:
  assumes "iteration rm self = (ctl, self')"
  shows "calls self' = calls self @
           [Call_update_rankings, Call_get_signals, Call_update_metrics,
            Call_check_limits (fst (rm_check_limits rm (risk_manager self)))] @
           sleep_after (fst (rm_check_limits rm (risk_manager self)))"
    and "ctl = Break \<longleftrightarrow> fst (rm_check_limits rm (risk_manager self)) = Inr False"
    and "running self' = running self"
    and "leader_manager self' = leader_manager self"
    and "total_signals self' = total_signals self"
    and "total_orders self' = total_orders self"
  using assms
  by (auto simp: iteration_def get_signals_def update_metrics_def update_rankings_def called_def
      sleep_after_def Let_def split: prod.splits sum.splits if_splits)


lemma sleep_after_no_poll [simp]:
  "filter is_poll (sleep_after a) = []"
  "filter (\<lambda>c. c = Call_update_rankings) (sleep_after a) = []"
  "Call_check_limits b \<notin> set (sleep_after a)"
  by (auto simp: sleep_after_def split: sum.splits)

lemma sleep_after_Nil: "sleep_after a = [] \<longleftrightarrow> a = Inr False"
  by (auto simp: sleep_after_def split: sum.splits)

lemma last_sleep_after: "sleep_after a \<noteq> [] \<Longrightarrow> last (sleep_after a) \<noteq> Call_check_limits b"
  by (auto simp: sleep_after_def split: sum.splits if_splits)

lemma main_loop_trace:
  "running self \<Longrightarrow>
     \<exists>cs. calls (state_of (main_loop n rm self)) = calls self @ cs \<and>
          length (filter is_poll cs) = length (filter (\<lambda>c. c = Call_update_rankings) cs) \<and>
          Call_check_limits (Inr False) \<notin> set (butlast cs) \<and>
          (is_Returned (main_loop n rm self) \<longleftrightarrow>
             cs \<noteq> [] \<and> last cs = Call_check_limits (Inr False))"
proof (induction n arbitrary: self)
  case 0
  then show ?case by simp
next
  case (Suc n)
  obtain ctl self' where it: "iteration rm self = (ctl, self')" by (cases "iteration rm self")
  let ?a = "fst (rm_check_limits rm (risk_manager self))"
  let ?it = "[Call_update_rankings, Call_get_signals, Call_update_metrics, Call_check_limits ?a]
               @ sleep_after ?a"
  note ic = iteration_calls [OF it]
  show ?case
  proof (cases ctl)
    case Break
    then have a: "?a = Inr False" using ic(2) by simp
    have res: "main_loop (Suc n) rm self = Returned self'"
      using Suc.prems it Break by simp
    have sa: "sleep_after ?a = []" using a by (simp add: sleep_after_def)
    have "calls self' = calls self @ [Call_update_rankings, Call_get_signals,
        Call_update_metrics, Call_check_limits (Inr False)]"
      using ic(1) sa a by simp
    then show ?thesis using res by simp
  next
    case Continue
    then have a: "?a \<noteq> Inr False" using ic(2) by simp
    have res: "main_loop (Suc n) rm self = main_loop n rm self'"
      using Suc.prems it Continue by simp
    have run': "running self'" using ic(3) Suc.prems by simp
    from Suc.IH [OF run'] obtain cs where
      cs: "calls (state_of (main_loop n rm self')) = calls self' @ cs"
      and cnt: "length (filter is_poll cs) = length (filter (\<lambda>c. c = Call_update_rankings) cs)"
      and nb: "Call_check_limits (Inr False) \<notin> set (butlast cs)"
      and ret: "is_Returned (main_loop n rm self') \<longleftrightarrow>
             cs \<noteq> [] \<and> last cs = Call_check_limits (Inr False)"
      by blast
    have sl: "sleep_after ?a \<noteq> []" using a by (simp add: sleep_after_Nil)
    have 1: "calls (state_of (main_loop (Suc n) rm self)) = calls self @ (?it @ cs)"
      using res cs ic(1) by simp
    have 2: "length (filter is_poll (?it @ cs)) =
        length (filter (\<lambda>c. c = Call_update_rankings) (?it @ cs))"
      using cnt by simp
    have 3: "Call_check_limits (Inr False) \<notin> set (butlast (?it @ cs))"
    proof (cases "cs = []")
      case True
      have "set (butlast (sleep_after ?a)) \<subseteq> set (sleep_after ?a)"
        by (meson in_set_butlastD subsetI)
      then have "Call_check_limits (Inr False) \<notin> set (butlast (sleep_after ?a))"
        using sleep_after_no_poll(3) by blast
      then show ?thesis using True a sl by (simp add: butlast_append)
    next
      case False
      then show ?thesis using nb a by (simp add: butlast_append)
    qed
    have 4: "is_Returned (main_loop (Suc n) rm self) \<longleftrightarrow>
        ?it @ cs \<noteq> [] \<and> last (?it @ cs) = Call_check_limits (Inr False)"
    proof (cases "cs = []")
      case True
      then show ?thesis using res ret sl last_sleep_after [OF sl] by simp
    next
      case False
      then show ?thesis using res ret by simp
    qed
    from 1 2 3 4 show ?thesis by blast
  qed
qed

text \<open>
  C2. While the bot is running, every iteration of the main loop polls \<open>check_limits\<close>
  once (the call log holds as many limit checks as iterations started), and a check that
  returns False ends the loop: it is the last call of the log, the loop has returned, and
  it returns the same state whatever number of further iterations it was allowed.
\<close>

theorem main_loop_kill_switch:
  assumes "running self"
  shows "(fst (rm_check_limits rm (risk_manager self)) = Inr False \<longrightarrow>
           main_loop (Suc n) rm self = Returned (snd (iteration rm self)) \<and>
           calls (snd (iteration rm self)) = calls self @
             [Call_update_rankings, Call_get_signals, Call_update_metrics,
              Call_check_limits (Inr False)]) \<and>
         (\<exists>cs. calls (state_of (main_loop n rm self)) = calls self @ cs \<and>
            length (filter is_poll cs) = length (filter (\<lambda>c. c = Call_update_rankings) cs) \<and>
            Call_check_limits (Inr False) \<notin> set (butlast cs) \<and>
            (is_Returned (main_loop n rm self) \<longleftrightarrow>
               cs \<noteq> [] \<and> last cs = Call_check_limits (Inr False)))"
proof (intro conjI impI)
  assume a: "fst (rm_check_limits rm (risk_manager self)) = Inr False"
  obtain ctl self' where it: "iteration rm self = (ctl, self')" by (cases "iteration rm self")
  from iteration_calls(2) [OF it] a have "ctl = Break" by simp
  then show "main_loop (Suc n) rm self = Returned (snd (iteration rm self))"
    using assms it by simp
  show "calls (snd (iteration rm self)) = calls self @
             [Call_update_rankings, Call_get_signals, Call_update_metrics,
              Call_check_limits (Inr False)]"
    using iteration_calls(1) [OF it] a it by (simp add: sleep_after_def)
next
  show "\<exists>cs. calls (state_of (main_loop n rm self)) = calls self @ cs \<and>
            length (filter is_poll cs) = length (filter (\<lambda>c. c = Call_update_rankings) cs) \<and>
            Call_check_limits (Inr False) \<notin> set (butlast cs) \<and>
            (is_Returned (main_loop n rm self) \<longleftrightarrow>
               cs \<noteq> [] \<and> last cs = Call_check_limits (Inr False))"
    using assms by (rule main_loop_trace)
qed

lemmas loop_defs = iteration_def get_signals_def update_metrics_def update_rankings_def called_def
  Let_def CopyTradeBot_started_def countdown_methods_def

lemma countdown_run:
  "main_loop 5 countdown_methods (CopyTradeBot_started default_config 1) =
     Returned ((CopyTradeBot_started default_config 0)\<lparr>calls :=
       [Call_update_rankings, Call_get_signals, Call_update_metrics, Call_check_limits (Inr True),
        Call_sleep 1,
        Call_update_rankings, Call_get_signals, Call_update_metrics, Call_check_limits (Inr False)]\<rparr>)"
  by (simp add: numeral_eq_Suc loop_defs)

section \<open>Instances\<close>

text \<open>The theorems above at concrete inputs that meet their hypotheses.\<close>

theorem fetch_failover_witness:
  "fetch (scripted_data_client (\<lambda>k. Inr ''local'') (\<lambda>k. Inr ''public'') (\<lambda>k. Inr ''sdk''))
     (Open_orders ''0xleader'') [] = (Inr ''local'', [Local_node]) \<and>
   fetch (scripted_data_client (\<lambda>k. Inl (Exn TimeoutError None ''timeout''))
        (\<lambda>k. Inr ''public'') (\<lambda>k. Inr ''sdk'')) (User_state ''0xleader'') [] =
     (Inr ''public'', [Local_node, Public_api]) \<and>
   fetch (scripted_data_client
        (\<lambda>k. if k = 0 then Inl (Exn TimeoutError None ''timeout'') else Inr ''local'')
        (\<lambda>k. Inl (Exn ConnectionError None ''refused'')) (\<lambda>k. Inr ''sdk''))
     Clearinghouse_state [] =
     (Inr ''local'', [Local_node, Public_api, Local_node]) \<and>
   fetch_market (scripted_data_client (\<lambda>k. Inr ''local'') (\<lambda>k. Inr ''public'') (\<lambda>k. Inr ''sdk''))
     All_mids [] = (Inr ''sdk'', [Sdk]) \<and>
   fetch_market (scripted_data_client (\<lambda>k. Inr ''local'') (\<lambda>k. Inr ''public'')
        (\<lambda>k. if k = 0 then Inl (Exn TimeoutError None ''timeout'') else Inr ''sdk''))
     Meta [] = (Inr ''sdk'', [Sdk, Sdk])"
proof -
  let ?t = "Exn TimeoutError None ''timeout''" and ?c = "Exn ConnectionError None ''refused''"
  let ?ok = "\<lambda>k::nat. (Inr ''sdk'' :: exn + string)"
  let ?flaky = "\<lambda>k::nat. if k = 0 then Inl ?t else (Inr ''sdk'' :: exn + string)"
  from fetch_failover [of "\<lambda>k. Inr ''local''" "''local''" "\<lambda>k. Inr ''public''" ?ok
      "Open_orders ''0xleader''" ?t ?c "\<lambda>k. ?t" "\<lambda>k. ?c" All_mids "\<lambda>k. ?t"]
  have 1: "fetch (scripted_data_client (\<lambda>k. Inr ''local'') (\<lambda>k. Inr ''public'') ?ok)
     (Open_orders ''0xleader'') [] = (Inr ''local'', [Local_node])" by blast
  from fetch_failover [of "\<lambda>k. Inl ?t" "''public''" "\<lambda>k. Inr ''public''" ?ok
      "User_state ''0xleader''" ?t ?c "\<lambda>k. ?t" "\<lambda>k. ?c" All_mids "\<lambda>k. ?t"]
  have 2: "fetch (scripted_data_client (\<lambda>k. Inl ?t) (\<lambda>k. Inr ''public'') ?ok)
     (User_state ''0xleader'') [] = (Inr ''public'', [Local_node, Public_api])"
    by (simp (no_asm_use)) blast
  from fetch_failover [of "\<lambda>k. if k = 0 then Inl ?t else Inr ''local''" "''local''"
      "\<lambda>k. Inl ?c" ?ok Clearinghouse_state ?t ?c "\<lambda>k. ?t" "\<lambda>k. ?c" All_mids "\<lambda>k. ?t"]
  have 3: "fetch (scripted_data_client (\<lambda>k. if k = 0 then Inl ?t else Inr ''local'')
        (\<lambda>k. Inl ?c) ?ok) Clearinghouse_state [] =
     (Inr ''local'', [Local_node, Public_api, Local_node])"
    by (simp (no_asm_use)) blast
  from fetch_failover [of "\<lambda>k. Inr ''local''" "''sdk''" "\<lambda>k. Inr ''public''" ?ok
      "User_state ''0xleader''" ?t ?c "\<lambda>k. ?t" "\<lambda>k. ?c" All_mids "\<lambda>k. ?t"]
  have 4: "fetch_market (scripted_data_client (\<lambda>k. Inr ''local'') (\<lambda>k. Inr ''public'') ?ok)
     All_mids [] = (Inr ''sdk'', [Sdk])" by (simp (no_asm_use)) blast
  from fetch_failover [of "\<lambda>k. Inr ''local''" "''sdk''" "\<lambda>k. Inr ''public''" ?flaky
      "User_state ''0xleader''" ?t ?c "\<lambda>k. ?t" "\<lambda>k. ?c" Meta "\<lambda>k. ?t"]
  have 5: "fetch_market (scripted_data_client (\<lambda>k. Inr ''local'') (\<lambda>k. Inr ''public'') ?flaky)
     Meta [] = (Inr ''sdk'', [Sdk, Sdk])" by (simp (no_asm_use)) blast
  from 1 2 3 4 5 show ?thesis by blast
qed

lemma sample_tasks:
  "get_multiple_leaders_data sample_outcome [''0xbad'', ''0xgood''] =
     Inr [''0xgood'' \<mapsto> ''data'']"
  by (simp add: get_multiple_leaders_data_def create_tasks_def sample_outcome_def enumerate_eq_zip
      upt_rec)

theorem get_multiple_leaders_data_isolation_witness:
  "get_multiple_leaders_data sample_outcome [''0xbad'', ''0xgood''] =
     Inr [''0xgood'' \<mapsto> ''data''] \<and>
   dom [''0xgood'' \<mapsto> ''data''] = {''0xgood''} \<and>
   isl (sample_outcome 0 ''0xbad'') \<and> sample_outcome 1 ''0xgood'' = Inr ''data''"
proof -
  from get_multiple_leaders_data_isolation [of sample_outcome "[''0xbad'', ''0xgood'']"]
  obtain results where
    r: "get_multiple_leaders_data sample_outcome [''0xbad'', ''0xgood''] = Inr results"
    by blast
  with sample_tasks have "results = [''0xgood'' \<mapsto> ''data'']" by simp
  with r show ?thesis by (simp add: sample_outcome_def)
qed

theorem main_loop_kill_switch_witness:
  "running (CopyTradeBot_started default_config (0::nat)) \<and>
   fst (rm_check_limits countdown_methods
          (risk_manager (CopyTradeBot_started default_config (0::nat)))) = Inr False \<and>
   main_loop (Suc 3) countdown_methods (CopyTradeBot_started default_config 0) =
     Returned (snd (iteration countdown_methods (CopyTradeBot_started default_config 0))) \<and>
   calls (snd (iteration countdown_methods (CopyTradeBot_started default_config 0))) =
     [Call_update_rankings, Call_get_signals, Call_update_metrics, Call_check_limits (Inr False)]"
proof -
  have r: "running (CopyTradeBot_started default_config (0::nat))"
    by (simp add: CopyTradeBot_started_def)
  have f: "fst (rm_check_limits countdown_methods
          (risk_manager (CopyTradeBot_started default_config (0::nat)))) = Inr False"
    by (simp add: CopyTradeBot_started_def countdown_methods_def)
  have c: "calls (CopyTradeBot_started default_config (0::nat)) = []"
    by (simp add: CopyTradeBot_started_def)
  from main_loop_kill_switch [OF r, of countdown_methods 3] f c
  show ?thesis using r by simp
qed

end
